theory Spec2Isabelle
  imports Complex_Main "HOL-Library.Word" "HOL-Library.Sublist"
begin

unbundle bit_operations_syntax

section \<open>Data model (types.ts)\<close>

text \<open>
  JavaScript strings are modelled as \<^typ>\<open>string\<close>. The line feed written \<open>\n\<close> in
  the source is the character with code 10.
\<close>

definition LF :: char where
  "LF = CHR 0x0A"

datatype AppState = IDLE | RECORDING | PROCESSING | REVIEW

text \<open>
  \<open>interface Note\<close>. The timestamp is the clock reading of \<open>new Date()\<close>, in
  milliseconds; \<open>emailSent\<close> is an optional field.
\<close>

record Note =
  note_id :: string
  note_text :: string
  note_category :: string
  note_timestamp :: nat
  note_emailSent :: "bool option"

text \<open>
  \<open>Omit<Note, 'id' | 'timestamp'>\<close>, the type of \<open>currentNote\<close>. The controller
  only ever stores \<open>{ text, category }\<close>, so the optional \<open>emailSent\<close> is always
  absent from a draft and is left out.
\<close>

record Draft =
  draft_text :: string
  draft_category :: string

record UserSettings =
  onboardingComplete :: bool
  defaultEmail :: string
  otherEmails :: "string list"
  categories :: "string list"

text \<open>
  The category lists of the two onboarding forms: the documented one hands
  \<open>defaultCategories\<close> to the settings as it is, the other lets the user select among
  its list.
\<close>

definition defaultCategories :: "string list" where
  "defaultCategories = [''Ideas'', ''Follow ups'', ''To-do'', ''Notes'']"

definition selectableCategories :: "string list" where
  "selectableCategories =
     [''Work'', ''Podcast Notes'', ''Ideas'', ''To-Do'', ''Follow-ups'', ''Personal Reminder'']"

section \<open>Transcript normalization (App, onmessage)\<close>

text \<open>
  \<open>newText.replace(/\. /g, '.\n')\<close>: the global regular-expression replace scans
  left to right and rewrites every non-overlapping match of a period followed by a
  space into a period followed by a line feed.
\<close>

fun replace_period_space :: "string \<Rightarrow> string" where
  "replace_period_space [] = []"
| "replace_period_space [c] = [c]"
| "replace_period_space (c # d # cs) =
     (if c = CHR ''.'' \<and> d = CHR '' ''
      then CHR ''.'' # LF # replace_period_space cs
      else c # replace_period_space (d # cs))"

text \<open>
  The functional state update of \<open>onmessage\<close>:
  \<open>prev => { let newText = prev + text; newText = newText.replace(...); return newText; }\<close>.
\<close>

definition append_fragment :: "string \<Rightarrow> string \<Rightarrow> string" where
  "append_fragment prev txt = replace_period_space (prev @ txt)"

section \<open>Remote categorizer (services/geminiService.ts)\<close>

text \<open>A thrown JavaScript exception or a rejected promise, with its message.\<close>

datatype error = Error string

definition DQ :: char where
  "DQ = CHR 0x22"

text \<open>
  \<open>String.prototype.trim\<close> removes white space and line terminators from both
  ends. Of these, the characters that fit the eight-bit \<^typ>\<open>char\<close> are tab, line
  feed, vertical tab, form feed, carriage return, space and no-break space.
\<close>

definition is_white_space :: "char \<Rightarrow> bool" where
  "is_white_space c = (of_char c \<in> {9, 10, 11, 12, 13, 32, 160 :: nat})"

definition trim :: "string \<Rightarrow> string" where
  "trim s = rev (dropWhile is_white_space (rev (dropWhile is_white_space s)))"

text \<open>\<open>Array.prototype.join\<close> on strings.\<close>

fun join :: "string \<Rightarrow> string list \<Rightarrow> string" where
  "join sep [] = []"
| "join sep [x] = x"
| "join sep (x # y # ys) = x @ sep @ join sep (y # ys)"

text \<open>\<open>process.env.API_KEY\<close> is undefined or a string; the empty string is falsy too.\<close>

definition falsy :: "string option \<Rightarrow> bool" where
  "falsy v = (case v of None \<Rightarrow> True | Some k \<Rightarrow> k = [])"

definition categoriesString :: "string list \<Rightarrow> string" where
  "categoriesString userCategories = join '', '' (map (\<lambda>c. [DQ] @ c @ [DQ]) userCategories)"

definition prompt :: "string \<Rightarrow> string list \<Rightarrow> string" where
  "prompt txt userCategories =
     ''Please categorize the following note into ONE of these categories: ''
     @ categoriesString userCategories
     @ ''. If none of the other categories are a good fit, categorize it as ''
     @ [DQ] @ ''Notes'' @ [DQ]
     @ ''. Respond with ONLY the category name and nothing else.'' @ [LF]
     @ ''    '' @ [LF]
     @ ''    Note: '' @ [DQ] @ txt @ [DQ] @ [LF]
     @ ''    '' @ [LF]
     @ ''    Category:''"

text \<open>
  \<open>categorizeNote\<close> of services/geminiService.ts. The credential and the backend are
  the environment: \<open>api_key\<close> is \<open>process.env.API_KEY\<close>, and \<open>generateContent\<close>
  gives, for the prompt sent, what \<open>await ai.models.generateContent(...)\<close> does: it
  rejects (\<open>Inl\<close>) or resolves to a response whose \<open>text\<close> is a string or
  undefined (\<open>None\<close>, on which \<open>.trim()\<close> raises a TypeError inside the
  \<open>try\<close>). \<open>Inl\<close> in the result is a rejected promise of \<open>categorizeNote\<close>.
\<close>

definition categorizeNote ::
  "string option \<Rightarrow> (string \<Rightarrow> error + string option) \<Rightarrow> string \<Rightarrow> string list
     \<Rightarrow> error + string" where
  "categorizeNote api_key generateContent txt userCategories =
     (if falsy api_key then Inl (Error ''API_KEY environment variable not set'')
      else
        (case generateContent (prompt txt userCategories) of
           Inl e \<Rightarrow> Inr ''Notes''
         | Inr None \<Rightarrow> Inr ''Notes''
         | Inr (Some response_text) \<Rightarrow>
             (let category = trim response_text
              in if category \<in> set userCategories then Inr category else Inr ''Notes'')))"

text \<open>
  The second \<open>categorizeNote\<close> of the repository (the variant whose fallback is
  \<open>General Note\<close>), with its own prompt and its \<open>validCategories\<close> list.
\<close>

definition prompt_general :: "string \<Rightarrow> string list \<Rightarrow> string" where
  "prompt_general txt userCategories =
     ''Please categorize the following note into ONE of these categories: ''
     @ categoriesString userCategories
     @ '', or '' @ [DQ] @ ''General Note'' @ [DQ]
     @ '' if none apply. Respond with ONLY the category name and nothing else.'' @ [LF]
     @ ''    '' @ [LF]
     @ ''    Note: '' @ [DQ] @ txt @ [DQ] @ [LF]
     @ ''    '' @ [LF]
     @ ''    Category:''"

definition categorizeNote_general ::
  "string option \<Rightarrow> (string \<Rightarrow> error + string option) \<Rightarrow> string \<Rightarrow> string list
     \<Rightarrow> error + string" where
  "categorizeNote_general api_key generateContent txt userCategories =
     (if falsy api_key then Inl (Error ''API_KEY environment variable not set'')
      else
        (case generateContent (prompt_general txt userCategories) of
           Inl e \<Rightarrow> Inr ''General Note''
         | Inr None \<Rightarrow> Inr ''General Note''
         | Inr (Some response_text) \<Rightarrow>
             (let category = trim response_text;
                  validCategories = userCategories @ [''General Note'']
              in if category \<in> set validCategories then Inr category
                 else Inr ''General Note'')))"

section \<open>Audio frame encoder (utils/audioUtils.ts)\<close>

text \<open>
  An element of the \<open>Float32Array\<close>: a finite value, or NaN or an infinity. Every
  finite single-precision value times \<open>32768 = 2^15\<close> is exactly representable as a
  double, so the product \<open>data[i] * 32768\<close> is the exact real product.
\<close>

datatype sample = Finite real | NotFinite

definition times_32768 :: "sample \<Rightarrow> sample" where
  "times_32768 v = (case v of Finite x \<Rightarrow> Finite (x * 32768) | NotFinite \<Rightarrow> NotFinite)"

text \<open>
  Storing a number into an \<open>Int16Array\<close> applies ECMAScript's \<open>ToInt16\<close>: NaN and
  the infinities become 0, a finite number is truncated towards zero and then taken
  modulo \<open>2^16\<close>. The 16-bit word holds the result; \<^const>\<open>sint\<close> reads it.
\<close>

definition truncate_toward_zero :: "real \<Rightarrow> int" where
  "truncate_toward_zero x = (if x < 0 then \<lceil>x\<rceil> else \<lfloor>x\<rfloor>)"

definition ToInt16 :: "sample \<Rightarrow> 16 word" where
  "ToInt16 v = (case v of NotFinite \<Rightarrow> 0 | Finite x \<Rightarrow> word_of_int (truncate_toward_zero x))"

text \<open>The loop of \<open>createBlob\<close>: \<open>int16[i] = data[i] * 32768\<close>.\<close>

definition to_int16_array :: "sample list \<Rightarrow> 16 word list" where
  "to_int16_array data = map (\<lambda>v. ToInt16 (times_32768 v)) data"

text \<open>
  \<open>new Uint8Array(int16.buffer)\<close> views the same buffer as bytes, in the platform's
  byte order, which is little-endian: the low byte comes first.
\<close>

definition int16_bytes :: "16 word \<Rightarrow> 8 word list" where
  "int16_bytes w = [ucast w, ucast (drop_bit 8 w)]"

definition buffer_bytes :: "16 word list \<Rightarrow> 8 word list" where
  "buffer_bytes ws = concat (map int16_bytes ws)"

text \<open>
  \<open>btoa\<close> is the browser's base64 encoder (RFC 4648, with padding); it is not part of
  the repository. Three bytes become four characters of the alphabet.
\<close>

definition b64_alphabet :: string where
  "b64_alphabet = ''ABCDEFGHIJKLMNOPQRSTUVWXYZabcdefghijklmnopqrstuvwxyz0123456789+/''"

definition b64_char :: "nat \<Rightarrow> char" where
  "b64_char n = b64_alphabet ! n"

fun btoa :: "string \<Rightarrow> string" where
  "btoa [] = []"
| "btoa [a] =
     (let x = of_char a :: nat
      in [b64_char (x div 4), b64_char ((x mod 4) * 16), CHR ''='', CHR ''=''])"
| "btoa [a, b] =
     (let x = of_char a :: nat; y = of_char b :: nat
      in [b64_char (x div 4), b64_char ((x mod 4) * 16 + y div 16),
          b64_char ((y mod 16) * 4), CHR ''=''])"
| "btoa (a # b # c # rest) =
     (let x = of_char a :: nat; y = of_char b :: nat; z = of_char c :: nat
      in b64_char (x div 4) # b64_char ((x mod 4) * 16 + y div 16)
         # b64_char ((y mod 16) * 4 + z div 64) # b64_char (z mod 64) # btoa rest)"

text \<open>
  \<open>encode\<close>: the loop appends \<open>String.fromCharCode(bytes[i])\<close> for every byte, and
  the binary string goes through \<open>btoa\<close>.
\<close>

definition encode :: "8 word list \<Rightarrow> string" where
  "encode bytes = btoa (map (\<lambda>b. char_of (unat b)) bytes)"

record Blob =
  blob_data :: string
  blob_mimeType :: string

definition createBlob :: "sample list \<Rightarrow> Blob" where
  "createBlob data =
     \<lparr> blob_data = encode (buffer_bytes (to_int16_array data)),
       blob_mimeType = ''audio/pcm;rate=16000'' \<rparr>"

subsection \<open>Decoding a payload\<close>

text \<open>
  The receiving side is the transcription backend. To state what a payload decodes
  to, the inverse transformations are written out: the base64 decoder of RFC 4648
  (the browser's \<open>atob\<close>) and the little-endian reading of byte pairs as 16-bit
  samples. \<open>None\<close> is a malformed payload.
\<close>

fun index_of :: "'a \<Rightarrow> 'a list \<Rightarrow> nat option" where
  "index_of x [] = None"
| "index_of x (y # ys) = (if x = y then Some 0 else map_option Suc (index_of x ys))"

definition b64_index :: "char \<Rightarrow> nat option" where
  "b64_index c = index_of c b64_alphabet"

fun atob :: "string \<Rightarrow> string option" where
  "atob [] = Some []"
| "atob (c1 # c2 # c3 # c4 # rest) =
     (case (b64_index c1, b64_index c2) of
        (Some s1, Some s2) \<Rightarrow>
          (if c3 = CHR ''='' \<and> c4 = CHR ''='' \<and> rest = []
           then Some [char_of (s1 * 4 + s2 div 16)]
           else
             (case b64_index c3 of
                Some s3 \<Rightarrow>
                  (if c4 = CHR ''='' \<and> rest = []
                   then Some [char_of (s1 * 4 + s2 div 16),
                              char_of ((s2 mod 16) * 16 + s3 div 4)]
                   else
                     (case (b64_index c4, atob rest) of
                        (Some s4, Some bs) \<Rightarrow>
                          Some (char_of (s1 * 4 + s2 div 16)
                                # char_of ((s2 mod 16) * 16 + s3 div 4)
                                # char_of ((s3 mod 4) * 64 + s4) # bs)
                      | _ \<Rightarrow> None))
              | None \<Rightarrow> None))
      | _ \<Rightarrow> None)"
| "atob _ = None"

fun int16_of_bytes :: "8 word list \<Rightarrow> 16 word list option" where
  "int16_of_bytes [] = Some []"
| "int16_of_bytes [lo] = None"
| "int16_of_bytes (lo # hi # rest) =
     map_option (\<lambda>ws. (ucast lo OR push_bit 8 (ucast hi)) # ws) (int16_of_bytes rest)"

definition decode_payload :: "string \<Rightarrow> 16 word list option" where
  "decode_payload payload =
     (case atob payload of
        None \<Rightarrow> None
      | Some binary \<Rightarrow> int16_of_bytes (map (\<lambda>c. word_of_nat (of_char c)) binary))"

section \<open>Recording session controller (App)\<close>

text \<open>
  The controller is the \<open>App\<close> component: its React state, its four refs, and
  the handlers. The outside world is made explicit. Every call that leaves the
  component is appended to a trace of effects, objects created by the code (audio
  contexts, session promises, audio nodes) are numbered from a counter, and an
  \<open>async\<close> handler that reaches an \<open>await\<close> is parked as a task holding the values
  its closure captured, to be resumed by a later event. Loading and persisting
  through \<open>localStorage\<close>, the onboarding screen and console output are not modelled.
\<close>

datatype Effect =
    GetUserMedia
  | NewAudioContext nat
  | LiveConnect nat nat
  | CreateMediaStreamSource nat nat
  | CreateScriptProcessor nat
  | Connect nat nat
  | ThenSendRealtimeInput nat Blob
  | SessionClose nat
  | ThenSessionClose nat
  | Disconnect nat
  | AudioContextClose nat
  | StopTracks nat
  | CategorizeCall string "string list"
  | Mailto string string string
  | NavigatorShare string string
  | Alert string

text \<open>
  \<open>LiveConnect sid stream\<close> is \<open>ai.live.connect\<close> returning the session promise
  \<open>sid\<close>, with callbacks that captured \<open>stream\<close>. \<open>ThenSendRealtimeInput\<close> and
  \<open>ThenSessionClose\<close> register a \<open>.then\<close> callback on a session promise.
  \<open>Mailto recipient subject body\<close> assigns the \<open>mailto:\<close> link, with subject and
  body passed through \<open>encodeURIComponent\<close>, to \<open>window.location.href\<close>.
\<close>

datatype Task =
    StartAwaitUserMedia
  | StopAwaitSession nat string "string list"
  | StopAwaitAudioClose nat string "string list"
  | StopAwaitCategorize string

record App =
  appState :: AppState
  currentTranscription :: string
  currentNote :: "Draft option"
  savedNotes :: "Note list"
  error :: "string option"
  settings :: UserSettings
  justEmailed :: bool
  sessionPromiseRef :: "nat option"
  audioContextRef :: "nat option"
  scriptProcessorRef :: "nat option"
  mediaStreamSourceRef :: "nat option"
  effects :: "Effect list"
  tasks :: "Task list"
  closedContexts :: "nat list"
  nextId :: nat

definition defaultSettings :: UserSettings where
  "defaultSettings =
     \<lparr> onboardingComplete = False, defaultEmail = [], otherEmails = [],
       categories = [''Work'', ''Podcast Notes'', ''Ideas'', ''To-Do'', ''Follow-ups''] \<rparr>"

definition initial :: "UserSettings \<Rightarrow> App" where
  "initial st =
     \<lparr> appState = IDLE, currentTranscription = [], currentNote = None, savedNotes = [],
       error = None, settings = st, justEmailed = False,
       sessionPromiseRef = None, audioContextRef = None, scriptProcessorRef = None,
       mediaStreamSourceRef = None, effects = [], tasks = [], closedContexts = [],
       nextId = 0 \<rparr>"

subsection \<open>handleToggleRecording, stop branch\<close>

text \<open>
  The handler is cut at its \<open>await\<close>s. \<open>txt\<close> and \<open>cats\<close> are the
  \<open>currentTranscription\<close> and \<open>settings.categories\<close> captured by the closure when
  the handler was invoked. The last piece runs after \<open>await categorizeNote(...)\<close>:
  the \<open>try\<close>, the \<open>catch\<close> and the \<open>finally\<close>.
\<close>

definition stop_categorized :: "error + string \<Rightarrow> string \<Rightarrow> App \<Rightarrow> App" where
  "stop_categorized result txt s =
     (case result of
        Inr category \<Rightarrow>
          s\<lparr> currentNote := Some \<lparr> draft_text = txt, draft_category = category \<rparr>,
             appState := REVIEW,
             currentTranscription := [] \<rparr>
      | Inl e \<Rightarrow>
          s\<lparr> error := Some ''Failed to categorize note. Please try again.'',
             appState := IDLE,
             currentTranscription := [] \<rparr>)"

definition stop_evaluate :: "string \<Rightarrow> string list \<Rightarrow> App \<Rightarrow> App" where
  "stop_evaluate txt cats s =
     (if length (trim txt) > 0
      then s\<lparr> effects := effects s @ [CategorizeCall txt cats],
              tasks := tasks s @ [StopAwaitCategorize txt] \<rparr>
      else s\<lparr> currentTranscription := [], appState := IDLE \<rparr>)"

definition stop_release_audio :: "string \<Rightarrow> string list \<Rightarrow> App \<Rightarrow> App" where
  "stop_release_audio txt cats s =
     (case (audioContextRef s, scriptProcessorRef s, mediaStreamSourceRef s) of
        (Some ctx, Some sp, Some src) \<Rightarrow>
          (let s1 = s\<lparr> effects := effects s @ [Disconnect sp, Disconnect src] \<rparr>
           in if ctx \<notin> set (closedContexts s1)
              then s1\<lparr> effects := effects s1 @ [AudioContextClose ctx],
                       tasks := tasks s1 @ [StopAwaitAudioClose ctx txt cats] \<rparr>
              else stop_evaluate txt cats s1)
      | _ \<Rightarrow> stop_evaluate txt cats s)"

definition stop_audio_closed :: "nat \<Rightarrow> string \<Rightarrow> string list \<Rightarrow> App \<Rightarrow> App" where
  "stop_audio_closed ctx txt cats s =
     stop_evaluate txt cats (s\<lparr> closedContexts := ctx # closedContexts s \<rparr>)"

definition stop_session_resolved :: "nat \<Rightarrow> string \<Rightarrow> string list \<Rightarrow> App \<Rightarrow> App" where
  "stop_session_resolved sid txt cats s =
     stop_release_audio txt cats
       (s\<lparr> effects := effects s @ [SessionClose sid], sessionPromiseRef := None \<rparr>)"

subsection \<open>handleToggleRecording, start branch\<close>

text \<open>
  After \<open>await getUserMedia\<close> resolved with \<open>stream\<close>: the audio context and the
  session promise are created and stored in their refs. When \<open>getUserMedia\<close> rejects
  or a constructor in the \<open>try\<close> block throws, the \<open>catch\<close> runs.
\<close>

definition start_resolved :: "nat \<Rightarrow> App \<Rightarrow> App" where
  "start_resolved stream s =
     (let ctx = nextId s; sid = nextId s + 1
      in s\<lparr> audioContextRef := Some ctx,
            sessionPromiseRef := Some sid,
            effects := effects s @ [NewAudioContext ctx, LiveConnect sid stream],
            nextId := nextId s + 2 \<rparr>)"

definition start_failed :: "App \<Rightarrow> App" where
  "start_failed s =
     s\<lparr> error := Some ''Could not access microphone. Please grant permission and try again.'',
        appState := IDLE \<rparr>"

text \<open>
  The handler up to its first \<open>await\<close>. In the stop branch there is no \<open>await\<close>
  when the session ref is null, and the handler runs on into the audio clean-up.
\<close>

definition handleToggleRecording :: "App \<Rightarrow> App" where
  "handleToggleRecording s =
     (if appState s = RECORDING
      then
        (let txt = currentTranscription s; cats = categories (settings s);
             s1 = s\<lparr> appState := PROCESSING \<rparr>
         in case sessionPromiseRef s1 of
              Some sid \<Rightarrow> s1\<lparr> tasks := tasks s1 @ [StopAwaitSession sid txt cats] \<rparr>
            | None \<Rightarrow> stop_release_audio txt cats s1)
      else
        s\<lparr> error := None, currentNote := None, currentTranscription := [],
           appState := RECORDING,
           effects := effects s @ [GetUserMedia],
           tasks := tasks s @ [StartAwaitUserMedia] \<rparr>)"

subsection \<open>Session callbacks\<close>

text \<open>
  \<open>onopen\<close> and \<open>onclose\<close> captured the \<open>stream\<close> of their start. A message is
  given by its \<open>serverContent?.inputTranscription\<close> text, \<open>None\<close> when the message
  carries no input transcription.
\<close>

definition onopen :: "nat \<Rightarrow> App \<Rightarrow> App" where
  "onopen stream s =
     (case audioContextRef s of
        None \<Rightarrow> s
      | Some ctx \<Rightarrow>
          (let src = nextId s; sp = nextId s + 1
           in s\<lparr> mediaStreamSourceRef := Some src,
                 scriptProcessorRef := Some sp,
                 effects := effects s @ [CreateMediaStreamSource src stream,
                                         CreateScriptProcessor sp, Connect src sp, Connect sp ctx],
                 nextId := nextId s + 2 \<rparr>))"

definition onaudioprocess :: "sample list \<Rightarrow> App \<Rightarrow> App" where
  "onaudioprocess inputData s =
     (let pcmBlob = createBlob inputData
      in case sessionPromiseRef s of
           Some sid \<Rightarrow> s\<lparr> effects := effects s @ [ThenSendRealtimeInput sid pcmBlob] \<rparr>
         | None \<Rightarrow> s)"

definition onmessage :: "string option \<Rightarrow> App \<Rightarrow> App" where
  "onmessage inputTranscription s =
     (case inputTranscription of
        Some txt \<Rightarrow> s\<lparr> currentTranscription := append_fragment (currentTranscription s) txt \<rparr>
      | None \<Rightarrow> s)"

definition onerror :: "App \<Rightarrow> App" where
  "onerror s =
     s\<lparr> error := Some ''An error occurred during dictation.'', appState := IDLE \<rparr>"

definition onclose :: "nat \<Rightarrow> App \<Rightarrow> App" where
  "onclose stream s = s\<lparr> effects := effects s @ [StopTracks stream] \<rparr>"

subsection \<open>Unmount clean-up\<close>

definition unmount_cleanup :: "App \<Rightarrow> App" where
  "unmount_cleanup s =
     (let s1 = (case sessionPromiseRef s of
                  Some sid \<Rightarrow> s\<lparr> effects := effects s @ [ThenSessionClose sid] \<rparr>
                | None \<Rightarrow> s)
      in case audioContextRef s1 of
           Some ctx \<Rightarrow>
             (if ctx \<notin> set (closedContexts s1)
              then s1\<lparr> effects := effects s1 @ [AudioContextClose ctx] \<rparr>
              else s1)
         | None \<Rightarrow> s1)"

section \<open>Note lifecycle (App)\<close>

definition resetCurrentNote :: "App \<Rightarrow> App" where
  "resetCurrentNote s = s\<lparr> currentNote := None, appState := IDLE, justEmailed := False \<rparr>"

text \<open>
  The category-prefixed text \<open>`${currentNote.category}:\n\n${currentNote.text}`\<close>.
\<close>

definition prefixed_text :: "Draft \<Rightarrow> string" where
  "prefixed_text d = draft_category d @ '':'' @ [LF, LF] @ draft_text d"

text \<open>
  \<open>handleSaveNote\<close> of the documented \<open>App\<close>, which prepends the category to the
  note text. \<open>uuid\<close> is what \<open>crypto.randomUUID()\<close> returns and \<open>now\<close> is the clock
  reading of \<open>new Date()\<close>, both taken inside the call.
\<close>

definition handleSaveNote :: "string \<Rightarrow> nat \<Rightarrow> App \<Rightarrow> App" where
  "handleSaveNote uuid now s =
     (case currentNote s of
        None \<Rightarrow> s
      | Some d \<Rightarrow>
          (let newNote = \<lparr> note_id = uuid, note_text = prefixed_text d,
                           note_category = draft_category d, note_timestamp = now,
                           note_emailSent = Some (justEmailed s) \<rparr>
           in resetCurrentNote (s\<lparr> savedNotes := newNote # savedNotes s \<rparr>)))"

text \<open>
  \<open>handleSaveNote\<close> of the other \<open>App\<close> of the repository, which stores the text
  as it is.
\<close>

definition handleSaveNote_plain :: "string \<Rightarrow> nat \<Rightarrow> App \<Rightarrow> App" where
  "handleSaveNote_plain uuid now s =
     (case currentNote s of
        None \<Rightarrow> s
      | Some d \<Rightarrow>
          (let newNote = \<lparr> note_id = uuid, note_text = draft_text d,
                           note_category = draft_category d, note_timestamp = now,
                           note_emailSent = Some (justEmailed s) \<rparr>
           in resetCurrentNote (s\<lparr> savedNotes := newNote # savedNotes s \<rparr>)))"

text \<open>
  \<open>handleEmailNote\<close>: \<open>email\<close> is the optional argument, and
  \<open>email || settings.defaultEmail\<close> takes the default when the argument is undefined
  or empty.
\<close>

definition handleEmailNote :: "string option \<Rightarrow> App \<Rightarrow> App" where
  "handleEmailNote email s =
     (case currentNote s of
        None \<Rightarrow> s
      | Some d \<Rightarrow>
          (let s1 = s\<lparr> justEmailed := True \<rparr>;
               subject = ''Note: '' @ draft_category d;
               body = prefixed_text d;
               recipient = (if falsy email then defaultEmail (settings s) else the email)
           in if recipient \<noteq> []
              then s1\<lparr> effects := effects s1 @ [Mailto recipient subject body] \<rparr>
              else s1\<lparr> effects := effects s1
                         @ [Alert ''Please set a default email in your settings.''] \<rparr>))"

text \<open>
  \<open>handleShareNote\<close>: \<open>navigator_share\<close> is \<open>None\<close> when the browser has no
  \<open>navigator.share\<close>, and otherwise tells how the awaited share ends: it resolves, or
  it rejects (the user cancelled), which the handler catches and logs.
\<close>

definition handleShareNote :: "string option \<Rightarrow> (error + unit) option \<Rightarrow> App \<Rightarrow> App" where
  "handleShareNote email navigator_share s =
     (case currentNote s of
        None \<Rightarrow> s
      | Some d \<Rightarrow>
          (let s1 = s\<lparr> justEmailed := True \<rparr>;
               subject = ''Note: '' @ draft_category d;
               body = draft_text d
           in if \<not> falsy email
              then s1\<lparr> effects := effects s1 @ [Mailto (the email) subject body] \<rparr>
              else
                (case navigator_share of
                   Some outcome \<Rightarrow> s1\<lparr> effects := effects s1 @ [NavigatorShare subject body] \<rparr>
                 | None \<Rightarrow>
                     (if defaultEmail (settings s) \<noteq> []
                      then s1\<lparr> effects := effects s1
                                 @ [Mailto (defaultEmail (settings s)) subject body] \<rparr>
                      else s1\<lparr> effects := effects s1
                                 @ [Alert ''Please set a default email in settings to use this feature on desktop.''] \<rparr>))))"

definition handleDeleteSavedNote :: "string \<Rightarrow> App \<Rightarrow> App" where
  "handleDeleteSavedNote i s = s\<lparr> savedNotes := filter (\<lambda>note. note_id note \<noteq> i) (savedNotes s) \<rparr>"

section \<open>Events\<close>

text \<open>
  One event is one turn of the event loop. The dictation button is disabled while
  the state is Processing, and the note card with its save, email and discard controls
  is rendered only in Review with a draft. An event that resumes an \<open>await\<close> resumes
  the oldest task parked at that \<open>await\<close>, and does nothing when there is none.
  The two \<open>App\<close>s of the repository share the recording handler and the session
  callbacks and differ in saving and sharing. \<open>Save\<close> and \<open>Email\<close> are the handlers
  of the documented \<open>App\<close>, \<open>SavePlain\<close> and \<open>Share\<close> those of the other; a run
  of one \<open>App\<close> uses its own two.
\<close>

datatype Event =
    Click
  | UserMediaResolved nat
  | StartFailed
  | SessionResolved
  | SessionRejected
  | AudioCloseResolved
  | CategorizeSettled "error + string"
  | OnOpen nat
  | OnAudioProcess "sample list"
  | OnMessage "string option"
  | OnError
  | OnClose nat
  | Save string nat
  | Email "string option"
  | SavePlain string nat
  | Share "string option" "(error + unit) option"
  | Discard
  | Delete string
  | Unmount

fun is_StartAwaitUserMedia :: "Task \<Rightarrow> bool" where
  "is_StartAwaitUserMedia StartAwaitUserMedia = True"
| "is_StartAwaitUserMedia _ = False"

fun is_StopAwaitSession :: "Task \<Rightarrow> bool" where
  "is_StopAwaitSession (StopAwaitSession sid txt cats) = True"
| "is_StopAwaitSession _ = False"

fun is_StopAwaitAudioClose :: "Task \<Rightarrow> bool" where
  "is_StopAwaitAudioClose (StopAwaitAudioClose ctx txt cats) = True"
| "is_StopAwaitAudioClose _ = False"

fun is_StopAwaitCategorize :: "Task \<Rightarrow> bool" where
  "is_StopAwaitCategorize (StopAwaitCategorize txt) = True"
| "is_StopAwaitCategorize _ = False"

text \<open>The oldest task of a kind, and the tasks that remain.\<close>

fun take_task :: "(Task \<Rightarrow> bool) \<Rightarrow> Task list \<Rightarrow> (Task \<times> Task list) option" where
  "take_task P [] = None"
| "take_task P (t # ts) =
     (if P t then Some (t, ts)
      else map_option (\<lambda>(u, us). (u, t # us)) (take_task P ts))"

fun resume :: "Event \<Rightarrow> Task \<Rightarrow> App \<Rightarrow> App" where
  "resume (UserMediaResolved stream) StartAwaitUserMedia s = start_resolved stream s"
| "resume StartFailed StartAwaitUserMedia s = start_failed s"
| "resume SessionResolved (StopAwaitSession sid txt cats) s = stop_session_resolved sid txt cats s"
| "resume SessionRejected (StopAwaitSession sid txt cats) s = s"
| "resume AudioCloseResolved (StopAwaitAudioClose ctx txt cats) s = stop_audio_closed ctx txt cats s"
| "resume (CategorizeSettled result) (StopAwaitCategorize txt) s = stop_categorized result txt s"
| "resume _ _ s = s"

definition resume_oldest :: "(Task \<Rightarrow> bool) \<Rightarrow> Event \<Rightarrow> App \<Rightarrow> App" where
  "resume_oldest P ev s =
     (case take_task P (tasks s) of
        None \<Rightarrow> s
      | Some (t, ts) \<Rightarrow> resume ev t (s\<lparr> tasks := ts \<rparr>))"

definition review_card_shown :: "App \<Rightarrow> bool" where
  "review_card_shown s = (appState s = REVIEW \<and> currentNote s \<noteq> None)"

fun step :: "Event \<Rightarrow> App \<Rightarrow> App" where
  "step Click s = (if appState s = PROCESSING then s else handleToggleRecording s)"
| "step (UserMediaResolved stream) s = resume_oldest is_StartAwaitUserMedia (UserMediaResolved stream) s"
| "step StartFailed s = resume_oldest is_StartAwaitUserMedia StartFailed s"
| "step SessionResolved s = resume_oldest is_StopAwaitSession SessionResolved s"
| "step SessionRejected s = resume_oldest is_StopAwaitSession SessionRejected s"
| "step AudioCloseResolved s = resume_oldest is_StopAwaitAudioClose AudioCloseResolved s"
| "step (CategorizeSettled result) s =
     resume_oldest is_StopAwaitCategorize (CategorizeSettled result) s"
| "step (OnOpen stream) s = onopen stream s"
| "step (OnAudioProcess inputData) s = onaudioprocess inputData s"
| "step (OnMessage inputTranscription) s = onmessage inputTranscription s"
| "step OnError s = onerror s"
| "step (OnClose stream) s = onclose stream s"
| "step (Save uuid now) s = (if review_card_shown s then handleSaveNote uuid now s else s)"
| "step (Email email) s = (if review_card_shown s then handleEmailNote email s else s)"
| "step (SavePlain uuid now) s =
     (if review_card_shown s then handleSaveNote_plain uuid now s else s)"
| "step (Share email navigator_share) s =
     (if review_card_shown s then handleShareNote email navigator_share s else s)"
| "step Discard s = (if review_card_shown s then resetCurrentNote s else s)"
| "step (Delete i) s = handleDeleteSavedNote i s"
| "step Unmount s = unmount_cleanup s"

fun run :: "Event list \<Rightarrow> App \<Rightarrow> App" where
  "run [] s = s"
| "run (ev # evs) s = run evs (step ev s)"

text \<open>
  The events of one stop, from the request to the categorizer's answer, with no other
  event in between: the session promise is awaited when the ref holds one, and the
  audio-context close when the three audio refs are set and the context is not closed.
  And the clean-up calls that such a stop makes.
\<close>

definition audio_close_awaited :: "App \<Rightarrow> bool" where
  "audio_close_awaited s =
     (case (audioContextRef s, scriptProcessorRef s, mediaStreamSourceRef s) of
        (Some ctx, Some sp, Some src) \<Rightarrow> ctx \<notin> set (closedContexts s)
      | _ \<Rightarrow> False)"

definition stop_schedule :: "App \<Rightarrow> error + string \<Rightarrow> Event list" where
  "stop_schedule s result =
     [Click]
     @ (if sessionPromiseRef s \<noteq> None then [SessionResolved] else [])
     @ (if audio_close_awaited s then [AudioCloseResolved] else [])
     @ [CategorizeSettled result]"

definition cleanup_effects :: "App \<Rightarrow> Effect list" where
  "cleanup_effects s =
     (case sessionPromiseRef s of Some sid \<Rightarrow> [SessionClose sid] | None \<Rightarrow> [])
     @ (case (audioContextRef s, scriptProcessorRef s, mediaStreamSourceRef s) of
          (Some ctx, Some sp, Some src) \<Rightarrow>
            [Disconnect sp, Disconnect src]
            @ (if ctx \<notin> set (closedContexts s) then [AudioContextClose ctx] else [])
        | _ \<Rightarrow> [])"



text \<open>Transcription fragments delivered one after the other.\<close>

definition fragments :: "string list \<Rightarrow> Event list" where
  "fragments fs = map (\<lambda>f. OnMessage (Some f)) fs"



text \<open>
  The resources of a recording session, read off the trace: the session promises
  connected and not closed, and the audio contexts created and not closed.
\<close>

fun connected_sessions :: "Effect list \<Rightarrow> nat list" where
  "connected_sessions [] = []"
| "connected_sessions (LiveConnect sid stream # es) = sid # connected_sessions es"
| "connected_sessions (e # es) = connected_sessions es"


definition open_sessions :: "App \<Rightarrow> nat list" where
  "open_sessions s =
     filter (\<lambda>sid. SessionClose sid \<notin> set (effects s)) (connected_sessions (effects s))"



section \<open>Saved notes list (components/SavedNotesList.tsx)\<close>

definition categoryOrder :: "string list" where
  "categoryOrder = [''To-do'', ''Follow ups'', ''Ideas'', ''Notes'']"

text \<open>
  \<open>groupedNotes\<close> is a plain object used as a dictionary, modelled as an association
  list in the order in which the properties were created. The accumulator starts as
  \<open>{}\<close>, which inherits the properties of \<open>Object.prototype\<close>. For a category with
  one of these names \<open>acc[category]\<close> is truthy before anything was stored, the array
  is not created, and \<open>.push\<close> raises a TypeError.
\<close>

definition object_prototype_names :: "string list" where
  "object_prototype_names =
     [''constructor'', ''__proto__'', ''hasOwnProperty'', ''isPrototypeOf'',
      ''propertyIsEnumerable'', ''toLocaleString'', ''toString'', ''valueOf'',
      ''__defineGetter__'', ''__defineSetter__'', ''__lookupGetter__'', ''__lookupSetter__'']"

text \<open>\<open>acc[category].push(note)\<close> on an own property.\<close>

definition push_note :: "string \<Rightarrow> Note \<Rightarrow> (string \<times> Note list) list \<Rightarrow> (string \<times> Note list) list" where
  "push_note category note acc =
     map (\<lambda>(k, ns). if k = category then (k, ns @ [note]) else (k, ns)) acc"

text \<open>The callback of \<open>notes.reduce\<close>.\<close>

definition reducer :: "(string \<times> Note list) list \<Rightarrow> Note \<Rightarrow> error + (string \<times> Note list) list" where
  "reducer acc note =
     (let category = note_category note
      in if category \<in> set object_prototype_names
         then Inl (Error ''acc[category].push is not a function'')
         else Inr (push_note category note
                     (if map_of acc category = None then acc @ [(category, [])] else acc)))"

fun reduce_notes :: "(string \<times> Note list) list \<Rightarrow> Note list \<Rightarrow> error + (string \<times> Note list) list" where
  "reduce_notes acc [] = Inr acc"
| "reduce_notes acc (note # notes) =
     (case reducer acc note of Inl e \<Rightarrow> Inl e | Inr acc' \<Rightarrow> reduce_notes acc' notes)"

definition groupedNotes :: "Note list \<Rightarrow> error + (string \<times> Note list) list" where
  "groupedNotes notes = reduce_notes [] notes"

text \<open>
  \<open>Object.keys\<close> lists the own properties: first the keys that are array indices
  (canonical decimal numerals below \<open>2^32 - 1\<close>) in ascending numeric order, then the
  other keys in the order of their creation.
\<close>

definition is_digit :: "char \<Rightarrow> bool" where
  "is_digit c = (48 \<le> (of_char c :: nat) \<and> (of_char c :: nat) \<le> 57)"

definition digits_value :: "string \<Rightarrow> int" where
  "digits_value k = foldl (\<lambda>v c. 10 * v + (of_char c - 48)) 0 k"

definition is_array_index :: "string \<Rightarrow> bool" where
  "is_array_index k =
     (k \<noteq> [] \<and> list_all is_digit k \<and> (k = ''0'' \<or> hd k \<noteq> CHR ''0'')
      \<and> digits_value k < 2 ^ 32 - 1)"

definition object_keys :: "(string \<times> 'a) list \<Rightarrow> string list" where
  "object_keys obj =
     (let ks = map fst obj
      in sort_key digits_value (filter is_array_index ks)
         @ filter (\<lambda>k. \<not> is_array_index k) ks)"

text \<open>
  \<open>Array.prototype.indexOf\<close>, and the comparator handed to \<open>sort\<close>.
\<close>

definition indexOf :: "string list \<Rightarrow> string \<Rightarrow> int" where
  "indexOf xs x = (case index_of x xs of None \<Rightarrow> - 1 | Some i \<Rightarrow> int i)"

definition compareCategories :: "string \<Rightarrow> string \<Rightarrow> int" where
  "compareCategories a b =
     (let indexA = indexOf categoryOrder a; indexB = indexOf categoryOrder b
      in if indexA = - 1 then 1
         else if indexB = - 1 then - 1
         else indexA - indexB)"

text \<open>
  \<open>Array.prototype.sort\<close> belongs to the engine. ECMAScript requires the sort to be
  stable and leaves the order to the implementation when the comparator is not
  consistent, as this one is on two categories outside \<open>categoryOrder\<close> (each is
  reported to come after the other). The model is the insertion sort that engines
  apply to short arrays: each key in turn goes in front of the first key it compares
  below.
\<close>

fun insert_sorted :: "('a \<Rightarrow> 'a \<Rightarrow> int) \<Rightarrow> 'a \<Rightarrow> 'a list \<Rightarrow> 'a list" where
  "insert_sorted cmp x [] = [x]"
| "insert_sorted cmp x (y # ys) =
     (if cmp x y < 0 then x # y # ys else y # insert_sorted cmp x ys)"

definition array_sort :: "('a \<Rightarrow> 'a \<Rightarrow> int) \<Rightarrow> 'a list \<Rightarrow> 'a list" where
  "array_sort cmp xs = foldl (\<lambda>acc x. insert_sorted cmp x acc) [] xs"

definition sortedCategories :: "(string \<times> Note list) list \<Rightarrow> string list" where
  "sortedCategories groups = array_sort compareCategories (object_keys groups)"

text \<open>
  \<open>groupedNotes[category]\<close>, and the component: \<open>null\<close> for an empty list, else
  the groups in the order of \<open>sortedCategories\<close>, each with its notes.
\<close>

definition group_of :: "(string \<times> Note list) list \<Rightarrow> string \<Rightarrow> Note list" where
  "group_of groups category = (case map_of groups category of None \<Rightarrow> [] | Some ns \<Rightarrow> ns)"

definition SavedNotesList :: "Note list \<Rightarrow> error + (string \<times> Note list) list option" where
  "SavedNotesList notes =
     (if notes = [] then Inr None
      else
        (case groupedNotes notes of
           Inl e \<Rightarrow> Inl e
         | Inr groups \<Rightarrow>
             Inr (Some (map (\<lambda>category. (category, group_of groups category))
                          (sortedCategories groups)))))"




section \<open>Sample states\<close>

text \<open>
  Settings as they can stand in \<open>localStorage\<close>: onboarding is complete and no
  default email is set. With them, a recording in progress: start was requested,
  microphone access was granted with stream 7, the session opened, and one fragment
  arrived. And the review that follows when the recording is stopped and the
  categorizer answers \<open>To-Do\<close>.
\<close>

definition sample_settings :: UserSettings where
  "sample_settings = defaultSettings \<lparr> onboardingComplete := True \<rparr>"

definition recording_state :: App where
  "recording_state =
     run [Click, UserMediaResolved 7, OnOpen 7, OnMessage (Some ''buy milk'')]
       (initial sample_settings)"

definition review_state :: App where
  "review_state =
     run [Click, SessionResolved, AudioCloseResolved, CategorizeSettled (Inr ''To-Do'')]
       recording_state"


section \<open>Normalization lemmas\<close>

lemma replace_period_space_head:
  "replace_period_space (c # cs) \<noteq> [] \<and> hd (replace_period_space (c # cs)) = c"
  by (cases cs) auto

lemma replace_period_space_no_prefix:
  "\<not> prefix ''. '' (replace_period_space xs)"
proof (induction xs rule: replace_period_space.induct)
  case 1
  then show ?case by simp
next
  case (2 c)
  then show ?case by simp
next
  case (3 c d cs)
  show ?case
  proof (cases "c = CHR ''.'' \<and> d = CHR '' ''")
    case True
    then show ?thesis by (simp add: LF_def)
  next
    case False
    have "replace_period_space (d # cs) \<noteq> [] \<and> hd (replace_period_space (d # cs)) = d"
      by (rule replace_period_space_head)
    then obtain r where r: "replace_period_space (d # cs) = d # r"
      by (cases "replace_period_space (d # cs)") auto
    with False show ?thesis by auto
  qed
qed

lemma replace_period_space_clean:
  "\<not> sublist ''. '' (replace_period_space xs)"
proof (induction xs rule: replace_period_space.induct)
  case 1
  then show ?case by simp
next
  case (2 c)
  then show ?case by (simp add: sublist_Cons_right)
next
  case (3 c d cs)
  show ?case
  proof (cases "c = CHR ''.'' \<and> d = CHR '' ''")
    case True
    with 3 show ?thesis by (simp add: sublist_Cons_right LF_def)
  next
    case False
    have eq: "replace_period_space (c # d # cs) = c # replace_period_space (d # cs)"
      using False by auto
    have "\<not> prefix ''. '' (replace_period_space (c # d # cs))"
      by (rule replace_period_space_no_prefix)
    then have np: "\<not> prefix ''. '' (c # replace_period_space (d # cs))"
      unfolding eq .
    from False 3 have ns: "\<not> sublist ''. '' (replace_period_space (d # cs))" by simp
    from np ns have "\<not> sublist ''. '' (c # replace_period_space (d # cs))"
      unfolding sublist_Cons_right by blast
    then show ?thesis unfolding eq .
  qed
qed

lemma replace_period_space_fixed:
  "\<not> sublist ''. '' xs \<Longrightarrow> replace_period_space xs = xs"
proof (induction xs rule: replace_period_space.induct)
  case 1
  then show ?case by simp
next
  case (2 c)
  then show ?case by simp
next
  case (3 c d cs)
  from 3(3) have nd: "\<not> (c = CHR ''.'' \<and> d = CHR '' '')"
    by (auto simp: sublist_Cons_right)
  from 3(3) have "\<not> sublist ''. '' (d # cs)"
    by (simp add: sublist_Cons_right)
  with 3(2) nd have "replace_period_space (d # cs) = d # cs" by simp
  with nd show ?case by auto
qed

section \<open>Controller lemmas\<close>

lemma stop_release_audio_session_ref:
  "sessionPromiseRef (stop_release_audio t cats s) = sessionPromiseRef s"
  by (simp add: stop_release_audio_def stop_evaluate_def Let_def split: option.splits)

lemma stop_release_audio_effects_prefix:
  "\<exists>es. effects (stop_release_audio t cats s) = effects s @ es"
  by (simp add: stop_release_audio_def stop_evaluate_def Let_def split: option.splits)

lemma stop_release_audio_effects_mono:
  "e \<in> set (effects s) \<Longrightarrow> e \<in> set (effects (stop_release_audio t cats s))"
  using stop_release_audio_effects_prefix [of t cats s] by auto

lemma recording_state_eq:
  "recording_state =
     \<lparr> appState = RECORDING, currentTranscription = ''buy milk'', currentNote = None,
       savedNotes = [], error = None, settings = sample_settings, justEmailed = False,
       sessionPromiseRef = Some 1, audioContextRef = Some 0, scriptProcessorRef = Some 3,
       mediaStreamSourceRef = Some 2,
       effects = [GetUserMedia, NewAudioContext 0, LiveConnect 1 7,
                  CreateMediaStreamSource 2 7, CreateScriptProcessor 3, Connect 2 3, Connect 3 0],
       tasks = [], closedContexts = [], nextId = 4 \<rparr>"
  by (simp add: recording_state_def initial_def handleToggleRecording_def resume_oldest_def
      start_resolved_def onopen_def onmessage_def append_fragment_def Let_def)

lemma trim_buy_milk: "trim ''buy milk'' = ''buy milk''"
  by (simp add: trim_def is_white_space_def)

lemma review_state_eq:
  "review_state =
     \<lparr> appState = REVIEW, currentTranscription = [],
       currentNote = Some \<lparr> draft_text = ''buy milk'', draft_category = ''To-Do'' \<rparr>,
       savedNotes = [], error = None, settings = sample_settings, justEmailed = False,
       sessionPromiseRef = None, audioContextRef = Some 0, scriptProcessorRef = Some 3,
       mediaStreamSourceRef = Some 2,
       effects = [GetUserMedia, NewAudioContext 0, LiveConnect 1 7,
                  CreateMediaStreamSource 2 7, CreateScriptProcessor 3, Connect 2 3, Connect 3 0,
                  SessionClose 1, Disconnect 3, Disconnect 2, AudioContextClose 0,
                  CategorizeCall ''buy milk'' (categories sample_settings)],
       tasks = [], closedContexts = [0], nextId = 4 \<rparr>"
  by (simp add: review_state_def recording_state_eq handleToggleRecording_def resume_oldest_def
      stop_session_resolved_def stop_release_audio_def stop_audio_closed_def stop_evaluate_def
      stop_categorized_def trim_buy_milk Let_def)





text \<open>
  A stop requested while microphone access is still pending ends at once in Idle; the
  grant that arrives later still creates its session. After a second start the trace
  holds two sessions that were connected and never closed.
\<close>

lemma double_start_leaves_two_sessions:
  "appState (run [Click, Click, UserMediaResolved 7] (initial sample_settings)) = IDLE
   \<and> open_sessions (run [Click, Click, UserMediaResolved 7] (initial sample_settings)) = [1]
   \<and> open_sessions (run [Click, Click, UserMediaResolved 7, Click, UserMediaResolved 8]
         (initial sample_settings)) = [1, 3]"
  by (simp add: initial_def handleToggleRecording_def resume_oldest_def start_resolved_def
      stop_release_audio_def stop_evaluate_def trim_def open_sessions_def Let_def)

lemma run_append: "run (evs @ evs') s = run evs' (run evs s)"
  by (induction evs arbitrary: s) auto

lemma fragments_clean:
  "frags \<noteq> [] \<Longrightarrow>
     \<not> sublist ''. '' (currentTranscription (run (map (\<lambda>f. OnMessage (Some f)) frags) s))"
proof (induction frags rule: rev_induct)
  case Nil
  then show ?case by simp
next
  case (snoc f frags)
  show ?case
    by (simp add: run_append onmessage_def append_fragment_def replace_period_space_clean)
qed

text \<open>The other \<open>handleSaveNote\<close> stores the draft text without the category.\<close>

lemma handleSaveNote_plain_text:
  "currentNote s = Some d \<Longrightarrow>
     note_text (hd (savedNotes (handleSaveNote_plain uuid now s))) = draft_text d"
  by (simp add: handleSaveNote_plain_def resetCurrentNote_def Let_def)



















lemma run_fragments:
  "run (fragments fs) u
     = u\<lparr> currentTranscription := foldl append_fragment (currentTranscription u) fs \<rparr>"
  unfolding fragments_def
  by (induction fs arbitrary: u) (simp_all add: onmessage_def)

lemma stop_with_late_fragments:
  assumes "appState s = RECORDING" and "sessionPromiseRef s = Some sid" and "tasks s = []"
    and "trim (currentTranscription s) \<noteq> []"
    and "s' = run ([Click] @ fragments fsa @ [SessionResolved] @ fragments fsb
           @ (if audio_close_awaited s then [AudioCloseResolved] @ fragments fsc else [])
           @ fragments fsd @ [CategorizeSettled (Inr category)]) s"
  shows "currentNote s' = Some \<lparr> draft_text = currentTranscription s, draft_category = category \<rparr>
    \<and> currentTranscription s' = [] \<and> appState s' = REVIEW"
  unfolding assms(5) using assms(1-4)
  by (cases "audioContextRef s"; cases "scriptProcessorRef s"; cases "mediaStreamSourceRef s")
     (auto simp: run_append run_fragments audio_close_awaited_def
      handleToggleRecording_def resume_oldest_def stop_session_resolved_def
      stop_release_audio_def stop_audio_closed_def stop_evaluate_def stop_categorized_def
      Let_def)












lemma categorizeNote_answer:
  "categorizeNote api_key generateContent t cats = Inr c \<Longrightarrow> c \<in> set cats \<union> {''Notes''}"
  by (auto simp: categorizeNote_def Let_def split: if_splits sum.splits option.splits)

lemma categorizeNote_general_answer:
  "categorizeNote_general api_key generateContent t cats = Inr c
     \<Longrightarrow> c \<in> set cats \<union> {''General Note''}"
  by (auto simp: categorizeNote_general_def Let_def split: if_splits sum.splits option.splits)


lemma configured_categories_not_inherited:
  "set defaultCategories \<inter> set object_prototype_names = {}
   \<and> set selectableCategories \<inter> set object_prototype_names = {}
   \<and> set (categories defaultSettings) \<inter> set object_prototype_names = {}
   \<and> ''Notes'' \<notin> set object_prototype_names
   \<and> ''General Note'' \<notin> set object_prototype_names"
  by (simp add: defaultCategories_def selectableCategories_def defaultSettings_def
      object_prototype_names_def)


section \<open>Encoder lemmas\<close>

lemma index_of_nth:
  "distinct xs \<Longrightarrow> n < length xs \<Longrightarrow> index_of (xs ! n) xs = Some n"
proof (induction xs arbitrary: n)
  case Nil
  then show ?case by simp
next
  case (Cons a xs)
  show ?case
  proof (cases n)
    case 0
    then show ?thesis by simp
  next
    case (Suc m)
    with Cons.prems have "m < length xs" and "xs ! m \<noteq> a" and "distinct xs"
      by (auto simp: in_set_conv_nth)
    with Cons.IH [of m] Suc show ?thesis by simp
  qed
qed

lemma b64_alphabet_length: "length b64_alphabet = 64"
  by (simp add: b64_alphabet_def)

lemma b64_alphabet_distinct: "distinct b64_alphabet"
  by (simp add: b64_alphabet_def)

lemma b64_index_char: "n < 64 \<Longrightarrow> b64_index (b64_char n) = Some n"
  unfolding b64_index_def b64_char_def
  by (rule index_of_nth) (simp_all add: b64_alphabet_distinct b64_alphabet_length)

lemma b64_char_not_pad: "n < 64 \<Longrightarrow> b64_char n \<noteq> CHR ''=''"
proof -
  assume "n < 64"
  then have "b64_char n \<in> set b64_alphabet"
    by (simp add: b64_char_def b64_alphabet_length)
  moreover have "CHR ''='' \<notin> set b64_alphabet"
    by (simp add: b64_alphabet_def)
  ultimately show ?thesis by auto
qed

lemma of_char_less_256: "(of_char c :: nat) < 256"
proof -
  have "(of_char c :: nat) = of_char (char_of (of_char c :: nat))" by simp
  also have "\<dots> = (of_char c :: nat) mod 256" by (simp only: of_char_of)
  finally have "(of_char c :: nat) = of_char c mod 256" .
  then show ?thesis by (metis mod_less_divisor zero_less_numeral)
qed


lemma sextet_bounds:
  fixes x y z :: nat
  assumes "x < 256" and "y < 256" and "z < 256"
  shows "x div 4 < 64 \<and> (x mod 4) * 16 + y div 16 < 64 \<and> (y mod 16) * 4 + z div 64 < 64
    \<and> z mod 64 < 64 \<and> (x mod 4) * 16 < 64 \<and> (y mod 16) * 4 < 64"
proof -
  have "x div 4 < 64" using assms(1) by arith
  moreover have "(x mod 4) * 16 + y div 16 < 64" using assms(2) by arith
  moreover have "(y mod 16) * 4 + z div 64 < 64" using assms(3) by arith
  moreover have "z mod 64 < 64" by simp
  moreover have "(x mod 4) * 16 < 64" by arith
  moreover have "(y mod 16) * 4 < 64" by arith
  ultimately show ?thesis by blast
qed

lemma div_16_less: "(y::nat) < 256 \<Longrightarrow> y div 16 < 16"
  by (simp add: div_less_iff_less_mult)

lemma div_64_less: "(z::nat) < 256 \<Longrightarrow> z div 64 < 4"
  by (simp add: div_less_iff_less_mult)

lemma sextet_recombine:
  fixes x y z :: nat
  assumes "y < 256" and "z < 256"
  shows "x div 4 * 4 + ((x mod 4) * 16 + y div 16) div 16 = x
    \<and> x div 4 * 4 + ((x mod 4) * 16) div 16 = x
    \<and> (((x mod 4) * 16 + y div 16) mod 16) * 16 + ((y mod 16) * 4 + z div 64) div 4 = y
    \<and> (((x mod 4) * 16 + y div 16) mod 16) * 16 + ((y mod 16) * 4) div 4 = y
    \<and> (((y mod 16) * 4 + z div 64) mod 4) * 64 + z mod 64 = z"
  using div_16_less [OF assms(1)] div_64_less [OF assms(2)] by simp

lemma atob_btoa: "atob (btoa bs) = Some bs"
proof (induction bs rule: btoa.induct)
  case 1
  then show ?case by simp
next
  case (2 a)
  have x: "(of_char a :: nat) < 256" by (rule of_char_less_256)
  show ?case
    using sextet_bounds [OF x x x] sextet_recombine [OF x x, of "of_char a"]
    by (simp add: Let_def b64_index_char b64_char_not_pad)
next
  case (3 a b)
  have x: "(of_char a :: nat) < 256" and y: "(of_char b :: nat) < 256"
    by (rule of_char_less_256)+
  show ?case
    using sextet_bounds [OF x y y] sextet_recombine [OF y y, of "of_char a"]
    by (simp add: Let_def b64_index_char b64_char_not_pad)
next
  case (4 a b c rest)
  have x: "(of_char a :: nat) < 256" and y: "(of_char b :: nat) < 256"
    and z: "(of_char c :: nat) < 256"
    by (rule of_char_less_256)+
  show ?case
    using 4 sextet_bounds [OF x y z] sextet_recombine [OF y z, of "of_char a"]
    by (simp add: Let_def b64_index_char b64_char_not_pad)
qed

lemma int16_of_bytes_buffer: "int16_of_bytes (buffer_bytes ws) = Some ws"
proof (induction ws)
  case Nil
  then show ?case by (simp add: buffer_bytes_def)
next
  case (Cons w ws)
  have "(ucast (ucast w :: 8 word) OR push_bit 8 (ucast (ucast (drop_bit 8 w) :: 8 word))) = w"
    by (rule bit_word_eqI) (auto simp: bit_simps)
  with Cons show ?case by (simp add: buffer_bytes_def int16_bytes_def)
qed

lemma byte_roundtrip: "word_of_nat (unat b mod 256) = (b :: 8 word)"
proof -
  have "unat b < 2 ^ LENGTH(8)" by (rule unsigned_less)
  then have "unat b < 256" by simp
  then have "unat b mod 256 = unat b" by simp
  then show ?thesis by simp
qed

lemma binary_string_bytes:
  "map (\<lambda>c. word_of_nat (of_char c)) (map (\<lambda>b. char_of (unat b)) bytes) = (bytes :: 8 word list)"
  by (induction bytes) (simp_all add: byte_roundtrip)

lemma decode_createBlob:
  "decode_payload (blob_data (createBlob data)) = Some (to_int16_array data)"
  by (simp only: decode_payload_def createBlob_def encode_def atob_btoa Blob.simps
      option.case binary_string_bytes int16_of_bytes_buffer)


lemma sint_ToInt16:
  "sint (ToInt16 (times_32768 (Finite x))) = signed_take_bit 15 (truncate_toward_zero (x * 32768))"
  by (simp add: ToInt16_def times_32768_def sint_sbintrunc')

lemma truncate_in_range:
  assumes "- 1 \<le> x" and "x < 1"
  shows "- (2 ^ 15) \<le> truncate_toward_zero (x * 32768) \<and> truncate_toward_zero (x * 32768) < 2 ^ 15"
proof (cases "x * 32768 < 0")
  case True
  have "- 32768 \<le> x * 32768" using assms(1) by simp
  then have "- 32768 \<le> \<lceil>x * 32768\<rceil>" by linarith
  moreover have "\<lceil>x * 32768\<rceil> \<le> 0" using True by linarith
  ultimately show ?thesis using True by (simp add: truncate_toward_zero_def)
next
  case False
  have "x * 32768 < 32768" using assms(2) by simp
  then have "\<lfloor>x * 32768\<rfloor> < 32768" by linarith
  moreover have "0 \<le> \<lfloor>x * 32768\<rfloor>" using False by linarith
  ultimately show ?thesis using False by (simp add: truncate_toward_zero_def)
qed

lemma sint_ToInt16_in_range:
  assumes "- 1 \<le> x" and "x < 1"
  shows "sint (ToInt16 (times_32768 (Finite x))) = truncate_toward_zero (x * 32768)"
proof -
  have "signed_take_bit 15 (truncate_toward_zero (x * 32768)) = truncate_toward_zero (x * 32768)"
    using truncate_in_range [OF assms] by (intro signed_take_bit_int_eq_self) simp_all
  then show ?thesis by (simp only: sint_ToInt16)
qed

lemma sint_ToInt16_top:
  assumes "32767 / 32768 \<le> x" and "x < 1"
  shows "sint (ToInt16 (times_32768 (Finite x))) = 32767"
proof -
  have "32767 \<le> x * 32768" using assms(1) by simp
  moreover have "x * 32768 < 32768" using assms(2) by simp
  ultimately have "\<lfloor>x * 32768\<rfloor> = 32767" by linarith
  moreover have "\<not> x * 32768 < 0" using \<open>32767 \<le> x * 32768\<close> by linarith
  ultimately have "truncate_toward_zero (x * 32768) = 32767" by (simp add: truncate_toward_zero_def)
  moreover have "- 1 \<le> x" using assms(1) by simp
  ultimately show ?thesis using sint_ToInt16_in_range [of x] assms(2) by simp
qed

lemma to_int16_array_zeros: "to_int16_array (replicate n (Finite 0)) = replicate n 0"
  by (simp add: to_int16_array_def ToInt16_def times_32768_def truncate_toward_zero_def)

section \<open>Saved notes list lemmas\<close>


lemma index_of_None: "index_of x xs = None \<longleftrightarrow> x \<notin> set xs"
  by (induction xs) auto




















text \<open>
  The reducer's raise: on a note whose category is named like a property inherited
  from \<open>Object.prototype\<close> nothing is listed.
\<close>

lemma grouping_inherited_name:
  "SavedNotesList
     [\<lparr> note_id = ''n1'', note_text = ''constructor:'' @ [LF, LF] @ ''buy milk'',
        note_category = ''constructor'', note_timestamp = 1, note_emailSent = Some False \<rparr>]
   = Inl (Error ''acc[category].push is not a function'')"
  by (simp add: SavedNotesList_def groupedNotes_def reducer_def object_prototype_names_def)

section \<open>Claims\<close>

text \<open>
  C1, as the code has it. When stop is requested on a recording that holds a session
  handle, the state becomes Processing at once, but the session handle reference is
  still set when the handler suspends on the session promise, and nothing has been
  closed yet. The reference is set to null only when the handler resumes, after it has
  closed the awaited session. The fragment handler consults neither the session handle
  nor the state: every fragment delivered to it is appended to the transcript buffer
  and normalized. The draft is built from the transcript captured when stop was
  requested: whatever fragments arrive while the stop handler is suspended (on the
  session promise, on the audio-context close, on the categorizer), the draft's text
  is the buffer as it was at the request, and the buffer is empty when the handler
  ends.
\<close>

theorem C1_stop_and_fragments:
  assumes "appState s = RECORDING" and "sessionPromiseRef s = Some sid"
  shows "appState (handleToggleRecording s) = PROCESSING
    \<and> sessionPromiseRef (handleToggleRecording s) = Some sid
    \<and> tasks (handleToggleRecording s)
        = tasks s @ [StopAwaitSession sid (currentTranscription s) (categories (settings s))]
    \<and> effects (handleToggleRecording s) = effects s
    \<and> sessionPromiseRef (stop_session_resolved sid t cats u) = None
    \<and> SessionClose sid \<in> set (effects (stop_session_resolved sid t cats u))
    \<and> currentTranscription (onmessage (Some frag) u)
        = append_fragment (currentTranscription u) frag
    \<and> currentNote (stop_categorized (Inr category) t u)
        = Some \<lparr> draft_text = t, draft_category = category \<rparr>
    \<and> currentTranscription (stop_categorized result t u) = []
    \<and> (tasks s = [] \<and> trim (currentTranscription s) \<noteq> []
       \<longrightarrow> currentNote
             (run ([Click] @ fragments fsa @ [SessionResolved] @ fragments fsb
                   @ (if audio_close_awaited s then [AudioCloseResolved] @ fragments fsc else [])
                   @ fragments fsd @ [CategorizeSettled (Inr category)]) s)
           = Some \<lparr> draft_text = currentTranscription s, draft_category = category \<rparr>
         \<and> currentTranscription
             (run ([Click] @ fragments fsa @ [SessionResolved] @ fragments fsb
                   @ (if audio_close_awaited s then [AudioCloseResolved] @ fragments fsc else [])
                   @ fragments fsd @ [CategorizeSettled (Inr category)]) s)
           = [])"
proof -
  have a: "appState (handleToggleRecording s) = PROCESSING
    \<and> sessionPromiseRef (handleToggleRecording s) = Some sid
    \<and> tasks (handleToggleRecording s)
        = tasks s @ [StopAwaitSession sid (currentTranscription s) (categories (settings s))]
    \<and> effects (handleToggleRecording s) = effects s"
    using assms by (simp add: handleToggleRecording_def Let_def)
  have b: "sessionPromiseRef (stop_session_resolved sid t cats u) = None"
    by (simp add: stop_session_resolved_def stop_release_audio_session_ref)
  have c: "SessionClose sid \<in> set (effects (stop_session_resolved sid t cats u))"
    unfolding stop_session_resolved_def
    by (rule stop_release_audio_effects_mono) simp
  have d: "currentTranscription (onmessage (Some frag) u)
        = append_fragment (currentTranscription u) frag"
    by (simp add: onmessage_def)
  have e: "currentNote (stop_categorized (Inr category) t u)
        = Some \<lparr> draft_text = t, draft_category = category \<rparr>
    \<and> currentTranscription (stop_categorized result t u) = []"
    by (simp add: stop_categorized_def split: sum.splits)
  have f: "tasks s = [] \<and> trim (currentTranscription s) \<noteq> []
       \<longrightarrow> currentNote
             (run ([Click] @ fragments fsa @ [SessionResolved] @ fragments fsb
                   @ (if audio_close_awaited s then [AudioCloseResolved] @ fragments fsc else [])
                   @ fragments fsd @ [CategorizeSettled (Inr category)]) s)
           = Some \<lparr> draft_text = currentTranscription s, draft_category = category \<rparr>
         \<and> currentTranscription
             (run ([Click] @ fragments fsa @ [SessionResolved] @ fragments fsb
                   @ (if audio_close_awaited s then [AudioCloseResolved] @ fragments fsc else [])
                   @ fragments fsd @ [CategorizeSettled (Inr category)]) s)
           = []"
    using stop_with_late_fragments [OF assms(1) assms(2) _ _ refl, of fsa fsb fsc fsd category]
    by blast
  from a b c d e f show ?thesis by blast
qed

theorem C1_stop_and_fragments_witness:
  "appState recording_state = RECORDING \<and> sessionPromiseRef recording_state = Some 1
   \<and> tasks recording_state = [] \<and> trim (currentTranscription recording_state) \<noteq> []
   \<and> sessionPromiseRef (handleToggleRecording recording_state) = Some 1
   \<and> appState (handleToggleRecording recording_state) = PROCESSING
   \<and> currentNote
        (run [Click, OnMessage (Some '' late''), SessionResolved, OnMessage (Some '' later''),
              AudioCloseResolved, OnMessage (Some '' latest''), OnMessage (Some '' last''),
              CategorizeSettled (Inr ''To-Do'')] recording_state)
       = Some \<lparr> draft_text = ''buy milk'', draft_category = ''To-Do'' \<rparr>"
  using C1_stop_and_fragments [where s = recording_state and sid = 1
      and fsa = "['' late'']" and fsb = "['' later'']" and fsc = "['' latest'']"
      and fsd = "['' last'']" and category = "''To-Do''"]
  by (simp add: recording_state_eq trim_buy_milk audio_close_awaited_def fragments_def)

text \<open>
  C1 as stated fails. In the sample recording, after stop has been requested the
  session handle reference is still set, and a fragment that arrives then is appended
  to the transcript buffer.
\<close>

theorem C1_counterexample:
  "appState recording_state = RECORDING
   \<and> sessionPromiseRef (step Click recording_state) \<noteq> None
   \<and> currentTranscription (step (OnMessage (Some '' late'')) (step Click recording_state))
       = ''buy milk late''"
  by (simp add: recording_state_eq handleToggleRecording_def onmessage_def
      append_fragment_def Let_def)




text \<open>
  C3. A recording is stopped with a transcript that is not blank, no other handler
  is suspended, and the categorizer call fails. Then the categorization error is
  reported, the state is Idle, the transcript buffer is empty, and the draft and the
  saved notes are what they were, so no draft is created. The clean-up has run before
  the categorizer was called: the session reference is null, and the trace holds the
  close of the session the ref held, the disconnects of both audio nodes and the close
  of the audio context (when the three audio refs were set), followed by the
  categorizer call. The piece of the handler that receives the failure touches
  neither the trace nor the session reference, whatever state it resumes in.
\<close>

theorem C3_categorization_failure:
  assumes "appState s = RECORDING" and "tasks s = []"
    and "trim (currentTranscription s) \<noteq> []"
    and "s' = run (stop_schedule s (Inl e)) s"
  shows "error s' = Some ''Failed to categorize note. Please try again.''
    \<and> appState s' = IDLE
    \<and> currentTranscription s' = []
    \<and> currentNote s' = currentNote s
    \<and> savedNotes s' = savedNotes s
    \<and> sessionPromiseRef s' = None
    \<and> tasks s' = []
    \<and> effects s' = effects s @ cleanup_effects s
          @ [CategorizeCall (currentTranscription s) (categories (settings s))]
    \<and> effects (stop_categorized (Inl e) t u) = effects u
    \<and> sessionPromiseRef (stop_categorized (Inl e) t u) = sessionPromiseRef u
    \<and> error (stop_categorized (Inl e) t u) = Some ''Failed to categorize note. Please try again.''
    \<and> appState (stop_categorized (Inl e) t u) = IDLE
    \<and> currentTranscription (stop_categorized (Inl e) t u) = []
    \<and> currentNote (stop_categorized (Inl e) t u) = currentNote u"
proof -
  have whole: "error s' = Some ''Failed to categorize note. Please try again.''
    \<and> appState s' = IDLE
    \<and> currentTranscription s' = []
    \<and> currentNote s' = currentNote s
    \<and> savedNotes s' = savedNotes s
    \<and> sessionPromiseRef s' = None
    \<and> tasks s' = []
    \<and> effects s' = effects s @ cleanup_effects s
          @ [CategorizeCall (currentTranscription s) (categories (settings s))]"
    unfolding assms(4) using assms(1-3)
    by (cases "sessionPromiseRef s"; cases "audioContextRef s"; cases "scriptProcessorRef s";
        cases "mediaStreamSourceRef s")
       (auto simp: stop_schedule_def audio_close_awaited_def cleanup_effects_def
        handleToggleRecording_def resume_oldest_def stop_session_resolved_def
        stop_release_audio_def stop_audio_closed_def stop_evaluate_def stop_categorized_def
        Let_def)
  have last: "effects (stop_categorized (Inl e) t u) = effects u
    \<and> sessionPromiseRef (stop_categorized (Inl e) t u) = sessionPromiseRef u
    \<and> error (stop_categorized (Inl e) t u) = Some ''Failed to categorize note. Please try again.''
    \<and> appState (stop_categorized (Inl e) t u) = IDLE
    \<and> currentTranscription (stop_categorized (Inl e) t u) = []
    \<and> currentNote (stop_categorized (Inl e) t u) = currentNote u"
    by (simp add: stop_categorized_def)
  from whole last show ?thesis by blast
qed

theorem C3_categorization_failure_witness:
  "trim (currentTranscription recording_state) \<noteq> []
   \<and> stop_schedule recording_state (Inl (Error ''API_KEY environment variable not set''))
       = [Click, SessionResolved, AudioCloseResolved,
          CategorizeSettled (Inl (Error ''API_KEY environment variable not set''))]
   \<and> cleanup_effects recording_state
       = [SessionClose 1, Disconnect 3, Disconnect 2, AudioContextClose 0]
   \<and> appState (run [Click, SessionResolved, AudioCloseResolved,
         CategorizeSettled (Inl (Error ''API_KEY environment variable not set''))]
         recording_state) = IDLE
   \<and> currentNote (run [Click, SessionResolved, AudioCloseResolved,
         CategorizeSettled (Inl (Error ''API_KEY environment variable not set''))]
         recording_state) = None"
  using C3_categorization_failure
    [of recording_state _ "Error ''API_KEY environment variable not set''", OF _ _ _ refl]
  by (simp add: recording_state_eq trim_buy_milk stop_schedule_def audio_close_awaited_def
      cleanup_effects_def)




text \<open>
  C5. After a fragment-arrival update the transcript buffer holds no period-space
  substring, whatever the previous buffer and the fragment were; so it is after the
  last of any non-empty sequence of fragments delivered to the controller in any
  state. The rewrite leaves a buffer without period-space unchanged, so it is
  idempotent, and the buffer \<open>Hello. World\<close> becomes \<open>Hello.\<close>, line feed,
  \<open>World\<close>.
\<close>

theorem C5_normalization:
  "\<not> sublist ''. '' (append_fragment prev txt)
   \<and> \<not> sublist ''. '' (currentTranscription (onmessage (Some txt) s))
   \<and> (frags \<noteq> []
       \<longrightarrow> \<not> sublist ''. ''
             (currentTranscription (run (map (\<lambda>f. OnMessage (Some f)) frags) s)))
   \<and> (\<not> sublist ''. '' buf \<longrightarrow> replace_period_space buf = buf)
   \<and> replace_period_space (replace_period_space buf) = replace_period_space buf
   \<and> replace_period_space ''Hello. World'' = ''Hello.'' @ [LF] @ ''World''"
proof -
  have a: "\<not> sublist ''. '' (append_fragment prev txt)"
    unfolding append_fragment_def by (rule replace_period_space_clean)
  have a': "\<not> sublist ''. '' (currentTranscription (onmessage (Some txt) s))"
    by (simp add: onmessage_def append_fragment_def replace_period_space_clean)
  have b: "\<not> sublist ''. '' buf \<longrightarrow> replace_period_space buf = buf"
    by (simp add: replace_period_space_fixed)
  have c: "replace_period_space (replace_period_space buf) = replace_period_space buf"
    by (rule replace_period_space_fixed) (rule replace_period_space_clean)
  have d: "replace_period_space ''Hello. World'' = ''Hello.'' @ [LF] @ ''World''"
    by simp
  from a a' b c d fragments_clean [of frags s] show ?thesis by blast
qed

theorem C5_normalization_witness:
  "\<not> sublist ''. '' ''Hello.'' \<and> replace_period_space ''Hello.'' = ''Hello.''
   \<and> \<not> sublist ''. '' (append_fragment ''One. Tw'' ''o. Three'')"
  using C5_normalization [of "''One. Tw''" "''o. Three''" recording_state "[''x'']" "''Hello.''"]
  by (simp add: sublist_Cons_right)

text \<open>
  C6, as the code has it. The payload of a frame decodes back to the 16-bit values the
  conversion loop stored, one per sample, so a frame of zeros decodes to zeros. A
  finite sample \<open>s\<close> is stored as \<open>s * 32768\<close> truncated towards zero and wrapped
  into the signed 16-bit range; from \<open>-1\<close> up to but excluding \<open>1\<close> nothing wraps.
  The largest value 32767 is stored for samples from \<open>32767/32768\<close> up to but
  excluding \<open>1\<close>; the sample \<open>1.0\<close> itself wraps to \<open>-32768\<close>. NaN and the
  infinities are stored as 0. The bytes are little-endian and base64-encoded, and the
  MIME type names 16 kHz PCM.
\<close>

theorem C6_encoding:
  "decode_payload (blob_data (createBlob data)) = Some (map (\<lambda>v. ToInt16 (times_32768 v)) data)
   \<and> decode_payload (blob_data (createBlob (replicate n (Finite 0)))) = Some (replicate n 0)
   \<and> sint (ToInt16 (times_32768 (Finite x))) = signed_take_bit 15 (truncate_toward_zero (x * 32768))
   \<and> (- 1 \<le> x \<and> x < 1 \<longrightarrow> sint (ToInt16 (times_32768 (Finite x))) = truncate_toward_zero (x * 32768))
   \<and> (32767 / 32768 \<le> x \<and> x < 1 \<longrightarrow> sint (ToInt16 (times_32768 (Finite x))) = 32767)
   \<and> sint (ToInt16 (times_32768 (Finite 1))) = - 32768
   \<and> ToInt16 (times_32768 NotFinite) = 0
   \<and> blob_mimeType (createBlob data) = ''audio/pcm;rate=16000''"
proof -
  have a: "decode_payload (blob_data (createBlob data))
      = Some (map (\<lambda>v. ToInt16 (times_32768 v)) data)"
    using decode_createBlob [of data] by (simp only: to_int16_array_def)
  have b: "decode_payload (blob_data (createBlob (replicate n (Finite 0)))) = Some (replicate n 0)"
    by (simp only: decode_createBlob to_int16_array_zeros)
  have c: "sint (ToInt16 (times_32768 (Finite 1))) = - 32768"
    by (simp add: ToInt16_def times_32768_def truncate_toward_zero_def)
  have d: "ToInt16 (times_32768 NotFinite) = 0"
    by (simp add: ToInt16_def times_32768_def)
  have e: "blob_mimeType (createBlob data) = ''audio/pcm;rate=16000''"
    by (simp add: createBlob_def)
  from a b c d e sint_ToInt16 [of x] sint_ToInt16_in_range [of x] sint_ToInt16_top [of x]
  show ?thesis by blast
qed

theorem C6_encoding_witness:
  "(- 1 \<le> (1/2 :: real) \<and> (1/2 :: real) < 1)
   \<and> sint (ToInt16 (times_32768 (Finite (1/2)))) = 16384
   \<and> (32767 / 32768 \<le> (65535 / 65536 :: real) \<and> (65535 / 65536 :: real) < 1)
   \<and> sint (ToInt16 (times_32768 (Finite (65535 / 65536)))) = 32767
   \<and> decode_payload (blob_data (createBlob [Finite 0, Finite 0, Finite 0])) = Some [0, 0, 0]"
  using C6_encoding [of "[Finite 0, Finite 0, Finite 0]" 3 "1/2"]
    C6_encoding [of "[]" 0 "65535 / 65536"]
  by (simp add: ToInt16_def times_32768_def truncate_toward_zero_def numeral_3_eq_3)

text \<open>
  C6 as stated fails. The sample \<open>1.0\<close> is encoded as \<open>-32768\<close>, the most negative
  16-bit value, not the largest positive one; and the sample \<open>3/131072\<close>, whose
  product with 32768 is \<open>0.75\<close> and rounds to 1, is encoded as 0.
\<close>

theorem C6_counterexample:
  "sint (ToInt16 (times_32768 (Finite 1))) = - 32768
   \<and> map_option (map sint) (decode_payload (blob_data (createBlob [Finite 1]))) = Some [- 32768]
   \<and> round (3 / 131072 * 32768 :: real) = 1
   \<and> sint (ToInt16 (times_32768 (Finite (3 / 131072)))) = 0"
  by (simp add: decode_createBlob to_int16_array_def ToInt16_def times_32768_def truncate_toward_zero_def
      round_def)

text \<open>
  C7, as the code has it. Every share or email attempt on a draft sets the "just
  emailed" flag: with an explicit recipient, with a native share that succeeds or is
  cancelled, with the default email, and also in the missing-configuration case (no
  recipient, no native share, no default email), where the handler additionally
  reports the configuration error through an alert. Without a draft the handlers
  change nothing.
\<close>

theorem C7_share_marks_emailed:
  assumes "currentNote s = Some d"
  shows "justEmailed (handleShareNote email navigator_share s) = True
    \<and> justEmailed (handleEmailNote email s) = True
    \<and> (falsy email \<and> navigator_share = None \<and> defaultEmail (settings s) = []
        \<longrightarrow> effects (handleShareNote email navigator_share s)
            = effects s
              @ [Alert ''Please set a default email in settings to use this feature on desktop.''])
    \<and> (falsy email \<and> defaultEmail (settings s) = []
        \<longrightarrow> effects (handleEmailNote email s)
            = effects s @ [Alert ''Please set a default email in your settings.''])
    \<and> (currentNote u = None
        \<longrightarrow> handleShareNote email navigator_share u = u \<and> handleEmailNote email u = u)"
  using assms
  by (simp add: handleShareNote_def handleEmailNote_def Let_def split: option.splits)

theorem C7_share_marks_emailed_witness:
  "currentNote review_state = Some \<lparr> draft_text = ''buy milk'', draft_category = ''To-Do'' \<rparr>
   \<and> justEmailed (handleShareNote (Some ''a@b.c'') None review_state) = True
   \<and> justEmailed (handleShareNote None (Some (Inl (Error ''AbortError''))) review_state) = True
   \<and> justEmailed (handleShareNote None (Some (Inr ())) review_state) = True
   \<and> justEmailed (handleShareNote None None review_state) = True"
  using C7_share_marks_emailed [of review_state _ "Some ''a@b.c''" None]
    C7_share_marks_emailed [of review_state _ None "Some (Inl (Error ''AbortError''))"]
    C7_share_marks_emailed [of review_state _ None "Some (Inr ())"]
    C7_share_marks_emailed [of review_state _ None None]
  by (simp add: review_state_eq)

text \<open>
  C7 as stated fails. In the sample review there is a draft and no default email;
  sharing with no recipient and no native share raises the alert, and the flag, false
  before, is true afterwards. The email handler of the other \<open>App\<close> does the same.
\<close>

theorem C7_counterexample:
  "currentNote review_state \<noteq> None
   \<and> defaultEmail (settings review_state) = []
   \<and> justEmailed review_state = False
   \<and> justEmailed (handleShareNote None None review_state) = True
   \<and> effects (handleShareNote None None review_state)
       = effects review_state
         @ [Alert ''Please set a default email in settings to use this feature on desktop.'']
   \<and> justEmailed (handleEmailNote None review_state) = True
   \<and> effects (handleEmailNote None review_state)
       = effects review_state @ [Alert ''Please set a default email in your settings.'']"
  by (simp add: review_state_eq handleShareNote_def handleEmailNote_def falsy_def
      sample_settings_def defaultSettings_def Let_def)

text \<open>
  C8. With the credential set and the backend answering \<open>r\<close>, the category is the
  trimmed answer when that is a member of the allowed list (or, in the variant with
  \<open>validCategories\<close>, the fallback name itself), and the fallback otherwise. The
  result is always an allowed category or the fallback, and it is never an answer
  \<open>r\<close> that is neither. The controller stores the result as the draft's category.
\<close>

theorem C8_fallback:
  assumes "\<not> falsy api_key" and "generateContent (prompt t cats) = Inr (Some r)"
    and "generateContent (prompt_general t cats) = Inr (Some r)"
  shows "(trim r \<notin> set cats \<longrightarrow> categorizeNote api_key generateContent t cats = Inr ''Notes'')
    \<and> (trim r \<in> set cats \<longrightarrow> categorizeNote api_key generateContent t cats = Inr (trim r))
    \<and> (r \<notin> set cats \<and> r \<noteq> ''Notes'' \<longrightarrow> categorizeNote api_key generateContent t cats \<noteq> Inr r)
    \<and> categorizeNote api_key generateContent t cats \<in> Inr ` (set cats \<union> {''Notes''})
    \<and> (trim r \<notin> set cats \<and> trim r \<noteq> ''General Note''
        \<longrightarrow> categorizeNote_general api_key generateContent t cats = Inr ''General Note'')
    \<and> (trim r \<in> set cats \<or> trim r = ''General Note''
        \<longrightarrow> categorizeNote_general api_key generateContent t cats = Inr (trim r))
    \<and> (r \<notin> set cats \<and> r \<noteq> ''General Note''
        \<longrightarrow> categorizeNote_general api_key generateContent t cats \<noteq> Inr r)
    \<and> categorizeNote_general api_key generateContent t cats
        \<in> Inr ` (set cats \<union> {''General Note''})
    \<and> (trim r \<notin> set cats
        \<longrightarrow> currentNote (stop_categorized (categorizeNote api_key generateContent t cats) t s)
            = Some \<lparr> draft_text = t, draft_category = ''Notes'' \<rparr>)
    \<and> (trim r \<in> set cats
        \<longrightarrow> currentNote (stop_categorized (categorizeNote api_key generateContent t cats) t s)
            = Some \<lparr> draft_text = t, draft_category = trim r \<rparr>)"
  using assms
  by (auto simp: categorizeNote_def categorizeNote_general_def stop_categorized_def Let_def)

theorem C8_fallback_witness:
  "\<not> falsy (Some ''key'')
   \<and> categorizeNote (Some ''key'') (\<lambda>p. Inr (Some ''Shopping'')) ''buy milk'' [''Work'', ''To-Do'']
       = Inr ''Notes''
   \<and> categorizeNote (Some ''key'') (\<lambda>p. Inr (Some ''Shopping'')) ''buy milk'' [''Work'', ''Shopping'']
       = Inr ''Shopping''
   \<and> categorizeNote_general (Some ''key'') (\<lambda>p. Inr (Some ''Shopping'')) ''buy milk'' [''Work'', ''To-Do'']
       = Inr ''General Note''"
  using C8_fallback [of "Some ''key''" "\<lambda>p. Inr (Some ''Shopping'')" "''buy milk''" "[''Work'', ''To-Do'']" "''Shopping''"]
    C8_fallback [of "Some ''key''" "\<lambda>p. Inr (Some ''Shopping'')" "''buy milk''" "[''Work'', ''Shopping'']" "''Shopping''"]
  by (simp add: falsy_def trim_def is_white_space_def)



text \<open>
  C10. \<open>categorizeNote\<close> rejects exactly when the credential is undefined or empty.
  With the credential set, a rejected backend call and a response without text both
  give the fallback category as an ordinary result. So the controller's failure branch
  (the categorization error and Idle) is taken exactly when the credential is
  missing; with the credential the controller goes to Review and leaves the error
  slot alone.
\<close>

theorem C10_throws_only_without_key:
  "(isl (categorizeNote api_key generateContent t cats) \<longleftrightarrow> falsy api_key)
   \<and> (isl (categorizeNote_general api_key generateContent t cats) \<longleftrightarrow> falsy api_key)
   \<and> (\<not> falsy api_key \<and> (generateContent (prompt t cats) = Inl e
                            \<or> generateContent (prompt t cats) = Inr None)
       \<longrightarrow> categorizeNote api_key generateContent t cats = Inr ''Notes'')
   \<and> (\<not> falsy api_key \<and> (generateContent (prompt_general t cats) = Inl e
                            \<or> generateContent (prompt_general t cats) = Inr None)
       \<longrightarrow> categorizeNote_general api_key generateContent t cats = Inr ''General Note'')
   \<and> (falsy api_key
       \<longrightarrow> categorizeNote api_key generateContent t cats
           = Inl (Error ''API_KEY environment variable not set''))
   \<and> (error (stop_categorized (categorizeNote api_key generateContent t cats) t s)
         = Some ''Failed to categorize note. Please try again.''
        \<and> appState (stop_categorized (categorizeNote api_key generateContent t cats) t s) = IDLE
       \<longleftrightarrow> falsy api_key)
   \<and> (\<not> falsy api_key
       \<longrightarrow> appState (stop_categorized (categorizeNote api_key generateContent t cats) t s) = REVIEW
         \<and> error (stop_categorized (categorizeNote api_key generateContent t cats) t s) = error s)"
  by (auto simp: categorizeNote_def categorizeNote_general_def stop_categorized_def Let_def
      split: sum.splits option.splits)

theorem C10_throws_only_without_key_witness:
  "categorizeNote (Some ''key'') (\<lambda>p. Inl (Error ''network'')) ''buy milk'' [''Work''] = Inr ''Notes''
   \<and> categorizeNote None (\<lambda>p. Inr (Some ''Work'')) ''buy milk'' [''Work'']
       = Inl (Error ''API_KEY environment variable not set'')
   \<and> categorizeNote (Some '''') (\<lambda>p. Inr (Some ''Work'')) ''buy milk'' [''Work'']
       = Inl (Error ''API_KEY environment variable not set'')"
  using C10_throws_only_without_key [of "Some ''key''" "\<lambda>p. Inl (Error ''network'')" "''buy milk''" "[''Work'']" "Error ''network''"]
    C10_throws_only_without_key [of None "\<lambda>p. Inr (Some ''Work'')" "''buy milk''" "[''Work'']"]
    C10_throws_only_without_key [of "Some ''''" "\<lambda>p. Inr (Some ''Work'')" "''buy milk''" "[''Work'']"]
  by (simp add: falsy_def)

end
